theory Spec2Isabelle
  imports Main "HOL-Library.Word"
begin

section \<open>JavaScript strings\<close>

text \<open>
  A JavaScript string is a sequence of 16-bit code units, and \<^verbatim>\<open>length\<close> counts code
  units. String literals of the scripts are written \<open>js ''...''\<close>.
\<close>

type_synonym jstring = "16 word list"

definition js :: "string \<Rightarrow> jstring" where
  "js s = map (\<lambda>c. of_char c) s"

text \<open>
  \<^verbatim>\<open>String.prototype.trim\<close> removes white space and line terminators from both ends:
  TAB, LF, VT, FF, CR, SP, NBSP, the Unicode space separators, LS, PS and the byte order
  mark.
\<close>

definition white_space :: "16 word \<Rightarrow> bool" where
  "white_space c =
     (c \<in> set [0x09, 0x0A, 0x0B, 0x0C, 0x0D, 0x20, 0xA0, 0x1680, 0x2028, 0x2029,
               0x202F, 0x205F, 0x3000, 0xFEFF]
      \<or> (0x2000 \<le> c \<and> c \<le> 0x200A))"

definition trim :: "jstring \<Rightarrow> jstring" where
  "trim s = rev (dropWhile white_space (rev (dropWhile white_space s)))"

text \<open>The string conversion of a non-negative integer (an HTTP status code).\<close>

fun decimal :: "nat \<Rightarrow> jstring" where
  "decimal n = (if n < 10 then [word_of_nat (48 + n)]
                else decimal (n div 10) @ [word_of_nat (48 + n mod 10)])"

declare decimal.simps [simp del]

text \<open>
  \<^verbatim>\<open>encodeURIComponent\<close> throws a URIError on a string with a lone surrogate, and
  percent-encodes every other string.
\<close>

definition high_surrogate :: "16 word \<Rightarrow> bool" where
  "high_surrogate c = (0xD800 \<le> c \<and> c \<le> 0xDBFF)"

definition low_surrogate :: "16 word \<Rightarrow> bool" where
  "low_surrogate c = (0xDC00 \<le> c \<and> c \<le> 0xDFFF)"

fun well_formed :: "jstring \<Rightarrow> bool" where
  "well_formed [] = True"
| "well_formed [c] = (\<not> high_surrogate c \<and> \<not> low_surrogate c)"
| "well_formed (c # d # cs) =
     (if high_surrogate c then low_surrogate d \<and> well_formed cs
      else \<not> low_surrogate c \<and> well_formed (d # cs))"

section \<open>JSON values and the conversions the scripts apply to them\<close>

text \<open>
  The result of \<^verbatim>\<open>response.json()\<close> and of \<^verbatim>\<open>JSON.parse\<close>. A number is kept as
  its JavaScript string conversion (\<open>JNum (js ''7'')\<close>, \<open>JNum (js ''1.5'')\<close>), which is
  all the scripts observe of it.
\<close>

datatype json =
    JNull
  | JBool bool
  | JNum jstring
  | JStr jstring
  | JArr "json list"
  | JObj "(jstring \<times> json) list"

text \<open>
  \<open>property v k\<close> is \<^verbatim>\<open>v[k]\<close> for a value \<open>v\<close> other than null and a property name \<open>k\<close>
  that no prototype defines (\<^verbatim>\<open>status\<close>, \<^verbatim>\<open>message\<close>, \<^verbatim>\<open>patient_id\<close>,
  \<^verbatim>\<open>full_name\<close>, \<^verbatim>\<open>id_number\<close>); \<open>None\<close> is \<^verbatim>\<open>undefined\<close>. Of a key the JSON
  text repeats, the last value stands.
\<close>

fun property :: "json \<Rightarrow> jstring \<Rightarrow> json option" where
  "property (JObj kvs) k = map_of (rev kvs) k"
| "property v k = None"

fun truthy :: "json option \<Rightarrow> bool" where
  "truthy None = False"
| "truthy (Some JNull) = False"
| "truthy (Some (JBool b)) = b"
| "truthy (Some (JNum r)) = (r \<noteq> js ''0'')"
| "truthy (Some (JStr s)) = (s \<noteq> [])"
| "truthy (Some (JArr xs)) = True"
| "truthy (Some (JObj kvs)) = True"

text \<open>
  The string conversion of a value, in a template literal or as the right operand of
  \<^verbatim>\<open>+\<close> after a string; \<open>None\<close> is the TypeError of an object that cannot be
  converted to a primitive (its own \<^verbatim>\<open>toString\<close> property is not a function). An
  array is joined with commas, null elements as empty strings.
\<close>

fun to_string :: "json \<Rightarrow> jstring option"
  and join :: "json list \<Rightarrow> jstring option" where
  "to_string JNull = Some (js ''null'')"
| "to_string (JBool b) = Some (if b then js ''true'' else js ''false'')"
| "to_string (JNum r) = Some r"
| "to_string (JStr s) = Some s"
| "to_string (JArr xs) = join xs"
| "to_string (JObj kvs) =
     (if map_of kvs (js ''toString'') = None then Some (js ''[object Object]'') else None)"
| "join [] = Some []"
| "join (x # xs) =
     (case (if x = JNull then Some [] else to_string x) of
        None \<Rightarrow> None
      | Some a \<Rightarrow>
          (if xs = [] then Some a
           else (case join xs of None \<Rightarrow> None | Some b \<Rightarrow> Some (a @ js '','' @ b))))"

text \<open>
  What the scripts leave to the JavaScript engine: the message texts of its TypeErrors,
  and whether a string converts to a number greater than zero.
\<close>

record engine =
  null_property_message :: "jstring \<Rightarrow> jstring"
  null_object_message :: jstring
  not_primitive_message :: jstring
  not_function_message :: "jstring \<Rightarrow> jstring"
  string_positive :: "jstring \<Rightarrow> bool"

datatype js_error = Error jstring | TypeError jstring | SyntaxError jstring

fun message :: "js_error \<Rightarrow> jstring" where
  "message (Error m) = m"
| "message (TypeError m) = m"
| "message (SyntaxError m) = m"

text \<open>
  \<open>gt_zero eng v\<close> is \<^verbatim>\<open>v > 0\<close>; \<open>None\<close> is the TypeError of a failed conversion.
  A number is positive when its string conversion is neither \<^verbatim>\<open>0\<close> nor starts with a
  minus sign.
\<close>

fun gt_zero :: "engine \<Rightarrow> json option \<Rightarrow> bool option" where
  "gt_zero eng None = Some False"
| "gt_zero eng (Some JNull) = Some False"
| "gt_zero eng (Some (JBool b)) = Some b"
| "gt_zero eng (Some (JNum r)) = Some (r \<noteq> js ''0'' \<and> take 1 r \<noteq> js ''-'')"
| "gt_zero eng (Some (JStr s)) = Some (string_positive eng s)"
| "gt_zero eng (Some (JArr xs)) = map_option (string_positive eng) (join xs)"
| "gt_zero eng (Some (JObj kvs)) = map_option (\<lambda>s. False) (to_string (JObj kvs))"

text \<open>\<open>has_length eng data\<close> is \<^verbatim>\<open>data && data.length > 0\<close>.\<close>

fun has_length :: "engine \<Rightarrow> json \<Rightarrow> bool option" where
  "has_length eng JNull = Some False"
| "has_length eng (JBool b) = Some False"
| "has_length eng (JNum r) = Some False"
| "has_length eng (JStr s) = Some (s \<noteq> [])"
| "has_length eng (JArr xs) = Some (xs \<noteq> [])"
| "has_length eng (JObj kvs) = gt_zero eng (property (JObj kvs) (js ''length''))"

section \<open>The page\<close>

text \<open>
  The document is a store of elements. Of each element the store holds what the script
  reads or writes: its id, its classes, its \<^verbatim>\<open>data-modal-target\<close> attribute, its
  \<^verbatim>\<open>style.display\<close>, its \<^verbatim>\<open>value\<close> (\<open>None\<close> where the element has no such
  property), the value \<^verbatim>\<open>reset()\<close> restores, and its content, as \<^verbatim>\<open>innerHTML\<close> or
  \<^verbatim>\<open>textContent\<close> last set it.
\<close>

type_synonym node = nat

datatype content = Html jstring | Text jstring

record element =
  el_id :: "jstring option"
  el_classes :: "jstring list"
  el_modal_target :: "jstring option"
  el_display :: jstring
  el_value :: "jstring option"
  el_default :: jstring
  el_content :: content

record notification =
  className :: jstring
  textContent :: jstring

datatype timer_action = Hide_notification nat | Reload

datatype request =
    Search_get jstring
  | Form_post "(node \<times> jstring option) list"

datatype console_arg = Str jstring | Err js_error

datatype console_level = Log | Warn | Fail

type_synonym console_entry = "console_level \<times> jstring \<times> console_arg list"

text \<open>
  The page: the elements in document order; the tree, as the three queries of the
  script see it (\<^verbatim>\<open>el.closest('.modal')\<close>, \<^verbatim>\<open>el.querySelector('form')\<close>, and the
  controls a form resets and submits); the notification banners of the body, the most
  recent first; the timers set and not yet run, with their delays in milliseconds; the
  requests sent; the console. Timers are recorded, not run: no listener of the script
  depends on one having run. \<open>Search_get term\<close> is the GET of
  \<^verbatim>\<open>/clinic-system/api/handler.php?action=search_patients&term=\<close> followed by the
  percent-encoded term; \<open>Form_post\<close> is the POST of a form's data to
  \<^verbatim>\<open>/clinic-system/api/handler.php\<close>.
\<close>

record page =
  nodes :: "node list"
  elems :: "node \<Rightarrow> element"
  closest_modal :: "node \<Rightarrow> node option"
  first_form :: "node \<Rightarrow> node option"
  controls :: "node \<Rightarrow> node list"
  notifications :: "notification list"
  timers :: "(nat \<times> timer_action) list"
  requests :: "request list"
  console :: "console_entry list"

definition getElementById :: "page \<Rightarrow> jstring \<Rightarrow> node option" where
  "getElementById p i = find (\<lambda>n. el_id (elems p n) = Some i) (nodes p)"

definition set_display :: "node \<Rightarrow> jstring \<Rightarrow> page \<Rightarrow> page" where
  "set_display n d p = p\<lparr>elems := (elems p)(n := (elems p n)\<lparr>el_display := d\<rparr>)\<rparr>"

definition set_value :: "node \<Rightarrow> jstring \<Rightarrow> page \<Rightarrow> page" where
  "set_value n v p = p\<lparr>elems := (elems p)(n := (elems p n)\<lparr>el_value := Some v\<rparr>)\<rparr>"

definition set_content :: "node \<Rightarrow> content \<Rightarrow> page \<Rightarrow> page" where
  "set_content n c p = p\<lparr>elems := (elems p)(n := (elems p n)\<lparr>el_content := c\<rparr>)\<rparr>"

text \<open>\<^verbatim>\<open>form.reset()\<close>: every control of the form gets its default value back.\<close>

definition reset_control :: "node \<Rightarrow> (node \<Rightarrow> element) \<Rightarrow> (node \<Rightarrow> element)" where
  "reset_control c es = es(c := (es c)\<lparr>el_value := Some (el_default (es c))\<rparr>)"

definition form_reset :: "node \<Rightarrow> page \<Rightarrow> page" where
  "form_reset f p = p\<lparr>elems := fold reset_control (controls p f) (elems p)\<rparr>"

definition console_error :: "jstring \<Rightarrow> console_arg list \<Rightarrow> page \<Rightarrow> page" where
  "console_error label args p = p\<lparr>console := console p @ [(Fail, label, args)]\<rparr>"

subsection \<open>1. Notification system\<close>

text \<open>
  \<^verbatim>\<open>showNotification(message, type = 'success')\<close> prepends a banner to the body and sets
  the timer that hides it after 4 seconds. The banner is named by the number of banners
  shown before it.
\<close>

definition showNotification :: "jstring \<Rightarrow> jstring option \<Rightarrow> page \<Rightarrow> page" where
  "showNotification msg type p =
     p\<lparr>notifications :=
         \<lparr>className = js ''notification notification-''
                        @ (case type of None \<Rightarrow> js ''success'' | Some t \<Rightarrow> t),
          textContent = msg\<rparr> # notifications p,
       timers := timers p @ [(4000, Hide_notification (length (notifications p)))]\<rparr>"

subsection \<open>2. Universal modal handler\<close>

text \<open>The click listener of a button with a \<^verbatim>\<open>data-modal-target\<close> attribute.\<close>

definition openModal_click :: "node \<Rightarrow> page \<Rightarrow> page" where
  "openModal_click button p =
     (let modalId = (case el_modal_target (elems p button) of
                       None \<Rightarrow> js ''null'' | Some i \<Rightarrow> i)
      in case getElementById p modalId of
           None \<Rightarrow> p
         | Some modal \<Rightarrow> set_display modal (js ''block'') p)"

text \<open>The click listener of a close button.\<close>

definition closeModal_click :: "node \<Rightarrow> page \<Rightarrow> page" where
  "closeModal_click button p =
     (case closest_modal p button of
        None \<Rightarrow> p
      | Some modal \<Rightarrow>
          (let p1 = set_display modal (js ''none'') p
           in case first_form p1 modal of
                None \<Rightarrow> p1
              | Some f \<Rightarrow> form_reset f p1))"

text \<open>The click listener of the window, for a click whose target is the element \<open>target\<close>.\<close>

definition window_click :: "node \<Rightarrow> page \<Rightarrow> page" where
  "window_click target p =
     (if js ''modal'' \<in> set (el_classes (elems p target))
      then set_display target (js ''none'') p
      else p)"

subsection \<open>3. Patient search and selection\<close>

text \<open>
  The elements the script looks up once, when the page has loaded; the listeners are
  attached only when the search input and the result panel both exist.
\<close>

record search_binding =
  patientSearchInput :: node
  searchResults :: node
  patientIdInput :: "node option"
  patientNameDisplay :: "node option"

definition patient_search :: "page \<Rightarrow> search_binding option" where
  "patient_search p =
     (case (getElementById p (js ''patient_search_input''),
            getElementById p (js ''patient_search_results'')) of
        (Some i, Some r) \<Rightarrow>
          Some \<lparr>patientSearchInput = i, searchResults = r,
                patientIdInput = getElementById p (js ''patient_id_input''),
                patientNameDisplay = getElementById p (js ''patient_name_display'')\<rparr>
      | _ \<Rightarrow> None)"

text \<open>
  The keyup listener of the search input. Where the listener throws (the element has no
  \<^verbatim>\<open>value\<close>, or the term has a lone surrogate), it leaves the page as it is.
\<close>

definition patientSearch_keyup :: "search_binding \<Rightarrow> page \<Rightarrow> page" where
  "patientSearch_keyup sb p =
     (case el_value (elems p (patientSearchInput sb)) of
        None \<Rightarrow> p
      | Some v \<Rightarrow>
          (let searchTerm = trim v
           in if length searchTerm < 2 then set_content (searchResults sb) (Html []) p
              else if well_formed searchTerm
                then p\<lparr>requests := requests p @ [Search_get searchTerm]\<rparr>
                else p))"

text \<open>The answer to a request: the fetch is rejected, or resolves with a response.\<close>

datatype body = Not_json jstring | Json json

record response =
  status :: nat
  body :: body

datatype fetch_result = Rejected jstring | Resolved response

definition ok :: "response \<Rightarrow> bool" where
  "ok r = (200 \<le> status r \<and> status r \<le> 299)"

text \<open>\<^verbatim>\<open>${p.name}\<close> in the template of a result row.\<close>

definition field :: "engine \<Rightarrow> json \<Rightarrow> jstring \<Rightarrow> js_error + jstring" where
  "field eng p name =
     (if p = JNull then Inl (TypeError (null_property_message eng name))
      else (case property p name of
              None \<Rightarrow> Inr (js ''undefined'')
            | Some v \<Rightarrow>
                (case to_string v of
                   None \<Rightarrow> Inl (TypeError (not_primitive_message eng))
                 | Some s \<Rightarrow> Inr s)))"

definition row :: "engine \<Rightarrow> json \<Rightarrow> js_error + jstring" where
  "row eng p =
     (case field eng p (js ''patient_id'') of
        Inl e \<Rightarrow> Inl e
      | Inr patient_id \<Rightarrow>
     (case field eng p (js ''full_name'') of
        Inl e \<Rightarrow> Inl e
      | Inr full_name \<Rightarrow>
     (case field eng p (js ''id_number'') of
        Inl e \<Rightarrow> Inl e
      | Inr id_number \<Rightarrow>
          Inr (js ''<div class=\"search-result-item\" data-id=\"'' @ patient_id
               @ js ''\" data-name=\"'' @ full_name @ js ''\">'' @ full_name
               @ js '' ('' @ id_number @ js '')</div>''))))"

text \<open>\<^verbatim>\<open>data.forEach\<close> over the records, appending to \<^verbatim>\<open>html\<close>.\<close>

fun rows :: "engine \<Rightarrow> json list \<Rightarrow> jstring \<Rightarrow> js_error + jstring" where
  "rows eng [] html = Inr html"
| "rows eng (p # ps) html =
     (case row eng p of Inl e \<Rightarrow> Inl e | Inr r \<Rightarrow> rows eng ps (html @ r))"

text \<open>The markup the second \<^verbatim>\<open>then\<close> callback of the search assigns to the panel.\<close>

definition results_html :: "engine \<Rightarrow> json \<Rightarrow> js_error + jstring" where
  "results_html eng data =
     (case has_length eng data of
        None \<Rightarrow> Inl (TypeError (not_primitive_message eng))
      | Some True \<Rightarrow>
          (case data of
             JArr ps \<Rightarrow> rows eng ps []
           | _ \<Rightarrow> Inl (TypeError (not_function_message eng (js ''data.forEach''))))
      | Some False \<Rightarrow> Inr (js ''<div class=\"search-no-results\">No patients found.</div>''))"

text \<open>The promise chain of the search, run when the fetch is settled.\<close>

definition patientSearch_settled ::
  "engine \<Rightarrow> search_binding \<Rightarrow> fetch_result \<Rightarrow> page \<Rightarrow> page" where
  "patientSearch_settled eng sb fr p =
     (case (case fr of
              Rejected m \<Rightarrow> Inl (TypeError m)
            | Resolved r \<Rightarrow>
                (case body r of
                   Not_json m \<Rightarrow> Inl (SyntaxError m)
                 | Json data \<Rightarrow> results_html eng data)) of
        Inr html \<Rightarrow> set_content (searchResults sb) (Html html) p
      | Inl error \<Rightarrow> console_error (js ''Error searching patients:'') [Err error] p)"

text \<open>
  The click listener of the result panel. The target of the click is given by its
  classes and its \<^verbatim>\<open>dataset\<close>: \<^verbatim>\<open>data-id\<close> and \<^verbatim>\<open>data-name\<close>, \<open>None\<close> where the
  attribute is missing.
\<close>

record click_target =
  target_classes :: "jstring list"
  dataset_id :: "jstring option"
  dataset_name :: "jstring option"

text \<open>A missing attribute reads as \<^verbatim>\<open>undefined\<close>, which the assignments convert to a string.\<close>

definition or_undefined :: "jstring option \<Rightarrow> jstring" where
  "or_undefined v = (case v of None \<Rightarrow> js ''undefined'' | Some s \<Rightarrow> s)"

definition searchResults_click :: "search_binding \<Rightarrow> click_target \<Rightarrow> page \<Rightarrow> page" where
  "searchResults_click sb t p =
     (if js ''search-result-item'' \<in> set (target_classes t) then
        (case (patientIdInput sb, patientNameDisplay sb) of
           (Some i, Some d) \<Rightarrow>
             set_content (searchResults sb) (Html [])
               (set_value (patientSearchInput sb) []
                 (set_content d (Text (js ''Selected: '' @ or_undefined (dataset_name t)))
                   (set_value i (or_undefined (dataset_id t)) p)))
         | _ \<Rightarrow>
             console_error
               (js ''Missing required elements for patient selection (patient_id_input or patient_name_display)'')
               [] p)
      else p)"

subsection \<open>4. AJAX form submission handlers\<close>

record form_binding =
  formId :: jstring
  form :: node
  successMessage :: jstring
  failureMessage :: jstring

text \<open>
  \<^verbatim>\<open>handleFormSubmission(formId, successMessage, failureMessage)\<close> attaches the submit
  listener when the form exists.
\<close>

definition handleFormSubmission ::
  "jstring \<Rightarrow> jstring \<Rightarrow> jstring \<Rightarrow> page \<Rightarrow> form_binding option" where
  "handleFormSubmission i s f p =
     (case getElementById p i of
        None \<Rightarrow> None
      | Some n \<Rightarrow> Some \<lparr>formId = i, form = n, successMessage = s, failureMessage = f\<rparr>)"

definition bound_forms :: "page \<Rightarrow> form_binding list" where
  "bound_forms p =
     List.map_filter (\<lambda>h. h p)
       [handleFormSubmission (js ''patientForm'')
          (js ''Patient record added successfully!'') (js ''Failed to add patient''),
        handleFormSubmission (js ''consultationForm'')
          (js ''Consultation logged successfully!'') (js ''Failed to log consultation''),
        handleFormSubmission (js ''medicineForm'')
          (js ''Medicine added to inventory successfully!'') (js ''Failed to add medicine''),
        handleFormSubmission (js ''appointmentForm'')
          (js ''Appointment scheduled successfully!'') (js ''Failed to schedule appointment'')]"

definition post_form :: "node \<Rightarrow> page \<Rightarrow> page" where
  "post_form f p =
     p\<lparr>requests := requests p
          @ [Form_post (map (\<lambda>c. (c, el_value (elems p c))) (controls p f))]\<rparr>"

text \<open>
  The submit listener. It always prevents the native submission, so the request it sends
  is the only one a submission causes.
\<close>

definition form_submit :: "form_binding \<Rightarrow> page \<Rightarrow> page" where
  "form_submit fb p =
     (if formId fb = js ''consultationForm'' \<or> formId fb = js ''appointmentForm'' then
        (case getElementById p (js ''patient_id_input'') of
           None \<Rightarrow> showNotification (js ''Please select a patient first.'') (Some (js ''error'')) p
         | Some i \<Rightarrow>
             (case el_value (elems p i) of
                None \<Rightarrow>
                  showNotification (js ''Please select a patient first.'') (Some (js ''error'')) p
              | Some v \<Rightarrow>
                  if v = [] then
                    showNotification (js ''Please select a patient first.'') (Some (js ''error'')) p
                  else post_form (form fb) p))
      else post_form (form fb) p)"

text \<open>The first \<^verbatim>\<open>then\<close> callback: the response, or the rejection of the fetch.\<close>

definition then_response :: "fetch_result \<Rightarrow> js_error + json" where
  "then_response fr =
     (case fr of
        Rejected m \<Rightarrow> Inl (TypeError m)
      | Resolved r \<Rightarrow>
          if \<not> ok r then Inl (Error (js ''HTTP error! Status: '' @ decimal (status r)))
          else (case body r of
                  Not_json m \<Rightarrow> Inl (SyntaxError m)
                | Json data \<Rightarrow> Inr data))"

text \<open>\<^verbatim>\<open>data.message || 'Unknown error.'\<close>, converted to a string.\<close>

definition message_or_unknown :: "json \<Rightarrow> jstring option" where
  "message_or_unknown data =
     (case property data (js ''message'') of
        None \<Rightarrow> Some (js ''Unknown error.'')
      | Some v \<Rightarrow> if truthy (Some v) then to_string v else Some (js ''Unknown error.''))"

text \<open>The second \<^verbatim>\<open>then\<close> callback.\<close>

definition then_data :: "engine \<Rightarrow> form_binding \<Rightarrow> json \<Rightarrow> page \<Rightarrow> js_error + page" where
  "then_data eng fb data p =
     (if data = JNull then Inl (TypeError (null_property_message eng (js ''status'')))
      else if property data (js ''status'') = Some (JStr (js ''success'')) then
        (let p1 = showNotification (successMessage fb) None p;
             p2 = form_reset (form fb) p1;
             p3 = (case closest_modal p2 (form fb) of
                     None \<Rightarrow> p2
                   | Some modal \<Rightarrow> set_display modal (js ''none'') p2)
         in Inr (p3\<lparr>timers := timers p3 @ [(500, Reload)]\<rparr>))
      else
        (case message_or_unknown data of
           None \<Rightarrow> Inl (TypeError (not_primitive_message eng))
         | Some m \<Rightarrow>
             Inr (showNotification (failureMessage fb @ js '': '' @ m) (Some (js ''error'')) p)))"

text \<open>The \<^verbatim>\<open>catch\<close> callback.\<close>

definition catch_error :: "js_error \<Rightarrow> page \<Rightarrow> page" where
  "catch_error error p =
     showNotification (js ''An unexpected error occurred: '' @ message error)
       (Some (js ''error''))
       (console_error (js ''Submission Error:'') [Err error] p)"

text \<open>The promise chain of a submission, run when the fetch is settled.\<close>

definition form_submit_settled ::
  "engine \<Rightarrow> form_binding \<Rightarrow> fetch_result \<Rightarrow> page \<Rightarrow> page" where
  "form_submit_settled eng fb fr p =
     (case then_response fr of
        Inl error \<Rightarrow> catch_error error p
      | Inr data \<Rightarrow>
          (case then_data eng fb data p of
             Inl error \<Rightarrow> catch_error error p
           | Inr p' \<Rightarrow> p'))"

section \<open>The realtime service module\<close>

text \<open>
  The three values injected into the page: \<^verbatim>\<open>__app_id\<close>, \<^verbatim>\<open>__firebase_config\<close> (a
  text, which the module parses as JSON) and \<^verbatim>\<open>__initial_auth_token\<close>; \<open>None\<close> where
  the global is not defined.
\<close>

record globals =
  app_id_global :: "jstring option"
  firebase_config_global :: "body option"
  initial_auth_token_global :: "jstring option"

text \<open>The calls into the SDK that can throw, each with the error it throws, if any.\<close>

record sdk =
  initializeApp_error :: "js_error option"
  getFirestore_error :: "js_error option"
  getAuth_error :: "js_error option"

datatype sdk_handle = App json | Firestore | Auth

datatype sign_in = Custom_token jstring | Anonymous

text \<open>
  The module's variables, and what it has asked of the SDK: the sign-in it awaits, whether
  its auth state observer is registered, and the collection paths it listens to.
\<close>

record module =
  appId :: jstring
  firebaseConfig :: json
  initialAuthToken :: "jstring option"
  app :: "sdk_handle option"
  db :: "sdk_handle option"
  auth :: "sdk_handle option"
  userId :: "jstring option"
  isAuthReady :: bool
  awaited :: "sign_in option"
  observing :: bool
  subscriptions :: "jstring list"
  module_console :: "console_entry list"

definition say :: "console_level \<Rightarrow> jstring \<Rightarrow> console_arg list \<Rightarrow> module \<Rightarrow> module" where
  "say level label args s = s\<lparr>module_console := module_console s @ [(level, label, args)]\<rparr>"

text \<open>\<^verbatim>\<open>Object.keys(v).length\<close>; \<open>None\<close> is the TypeError for null.\<close>

fun object_keys_length :: "json \<Rightarrow> nat option" where
  "object_keys_length JNull = None"
| "object_keys_length (JBool b) = Some 0"
| "object_keys_length (JNum r) = Some 0"
| "object_keys_length (JStr s) = Some (length s)"
| "object_keys_length (JArr xs) = Some (length xs)"
| "object_keys_length (JObj kvs) = Some (length (remdups (map fst kvs)))"

definition initialization_failed :: "js_error \<Rightarrow> module \<Rightarrow> module" where
  "initialization_failed error s =
     say Fail (js ''Firebase initialization failed:'') [Err error] s"

text \<open>
  \<^verbatim>\<open>initializeFirebase()\<close> up to its \<^verbatim>\<open>await\<close>; every exception is caught and logged.
\<close>

definition initializeFirebase :: "engine \<Rightarrow> sdk \<Rightarrow> module \<Rightarrow> module" where
  "initializeFirebase eng k s =
     (case object_keys_length (firebaseConfig s) of
        None \<Rightarrow> initialization_failed (TypeError (null_object_message eng)) s
      | Some n \<Rightarrow>
          if n = 0 then say Fail (js ''Firebase configuration is missing or empty.'') [] s
          else
            (case initializeApp_error k of
               Some e \<Rightarrow> initialization_failed e s
             | None \<Rightarrow>
            (let s1 = s\<lparr>app := Some (App (firebaseConfig s))\<rparr> in
             case getFirestore_error k of
               Some e \<Rightarrow> initialization_failed e s1
             | None \<Rightarrow>
            (let s2 = s1\<lparr>db := Some Firestore\<rparr> in
             case getAuth_error k of
               Some e \<Rightarrow> initialization_failed e s2
             | None \<Rightarrow>
            (let s3 = s2\<lparr>auth := Some Auth\<rparr> in
             case initialAuthToken s3 of
               None \<Rightarrow>
                 (say Log (js ''Signing in anonymously...'') [] s3)\<lparr>awaited := Some Anonymous\<rparr>
             | Some t \<Rightarrow>
                 if t = [] then
                   (say Log (js ''Signing in anonymously...'') [] s3)\<lparr>awaited := Some Anonymous\<rparr>
                 else
                   (say Log (js ''Signing in with custom token...'') [] s3)
                     \<lparr>awaited := Some (Custom_token t)\<rparr>)))))"

text \<open>
  The rest of \<^verbatim>\<open>initializeFirebase()\<close>, run when the awaited sign-in is settled: a
  rejection is caught and logged, otherwise the auth state observer is registered.
\<close>

definition sign_in_settled :: "js_error option \<Rightarrow> module \<Rightarrow> module" where
  "sign_in_settled r s =
     (case awaited s of
        None \<Rightarrow> s
      | Some w \<Rightarrow>
          (case r of
             Some e \<Rightarrow> initialization_failed e (s\<lparr>awaited := None\<rparr>)
           | None \<Rightarrow> s\<lparr>awaited := None, observing := True\<rparr>))"

text \<open>
  The callback given to \<^verbatim>\<open>onAuthStateChanged\<close>, called with the user's uid, or with no
  user and the identifier \<^verbatim>\<open>crypto.randomUUID()\<close> then returns.
\<close>

definition auth_state_changed :: "jstring option \<Rightarrow> jstring \<Rightarrow> module \<Rightarrow> module" where
  "auth_state_changed user uuid s =
     (if observing s then
        (case user of
           Some uid \<Rightarrow>
             (say Log (js ''User authenticated. UID:'') [Str uid] (s\<lparr>userId := Some uid\<rparr>))
               \<lparr>isAuthReady := True\<rparr>
         | None \<Rightarrow>
             (say Warn (js ''Authentication failed or user logged out. Using anonymous UUID:'')
                [Str uuid] (s\<lparr>userId := Some uuid\<rparr>))
               \<lparr>isAuthReady := True\<rparr>)
      else s)"

text \<open>\<^verbatim>\<open>fetchRealtimeData()\<close>: the guard, and the subscription to the user's collection.\<close>

definition fetchRealtimeData :: "module \<Rightarrow> module" where
  "fetchRealtimeData s =
     (if \<not> isAuthReady s \<or> db s = None \<or> userId s = None \<or> userId s = Some [] then
        say Fail (js ''Cannot fetch data: Firebase or Auth not ready.'') [] s
      else
        (let collectionPath =
               js ''/artifacts/'' @ appId s @ js ''/users/''
               @ (case userId s of None \<Rightarrow> [] | Some u \<Rightarrow> u) @ js ''/your_items''
         in (say Log (js ''Listening to collection:'') [Str collectionPath] s)
              \<lparr>subscriptions := subscriptions s @ [collectionPath]\<rparr>))"

text \<open>
  Loading the module: the three constants, the variables set to null, and the call of
  \<^verbatim>\<open>initializeFirebase()\<close>. \<open>None\<close>: the configuration text is not JSON, the module
  throws before it declares anything.
\<close>

definition load :: "engine \<Rightarrow> sdk \<Rightarrow> globals \<Rightarrow> module option" where
  "load eng k g =
     (case firebase_config_global g of
        Some (Not_json m) \<Rightarrow> None
      | c \<Rightarrow>
          Some (initializeFirebase eng k
            \<lparr>appId = (case app_id_global g of None \<Rightarrow> js ''default-app-id'' | Some a \<Rightarrow> a),
             firebaseConfig = (case c of Some (Json j) \<Rightarrow> j | _ \<Rightarrow> JObj []),
             initialAuthToken = initial_auth_token_global g,
             app = None, db = None, auth = None, userId = None, isAuthReady = False,
             awaited = None, observing = False, subscriptions = [],
             module_console = []\<rparr>))"

text \<open>
  What can happen to the loaded module: another module calls the exported
  \<^verbatim>\<open>fetchRealtimeData\<close>, the sign-in is settled, the SDK reports an auth state. Nothing
  calls \<^verbatim>\<open>initializeFirebase\<close> again: the module does not export it.
\<close>

datatype module_event =
    Call_fetchRealtimeData
  | Sign_in_settled "js_error option"
  | Auth_state_changed "jstring option" jstring

fun step :: "module_event \<Rightarrow> module \<Rightarrow> module" where
  "step Call_fetchRealtimeData s = fetchRealtimeData s"
| "step (Sign_in_settled r) s = sign_in_settled r s"
| "step (Auth_state_changed user uuid) s = auth_state_changed user uuid s"

fun run :: "module_event list \<Rightarrow> module \<Rightarrow> module" where
  "run [] s = s"
| "run (e # es) s = run es (step e s)"

section \<open>Auxiliary definitions\<close>

text \<open>\<open>contains_text s sub\<close>: the text \<open>sub\<close> occurs in \<open>s\<close>.\<close>

fun contains_text :: "jstring \<Rightarrow> jstring \<Rightarrow> bool" where
  "contains_text [] sub = (sub = [])"
| "contains_text (c # cs) sub = (take (length sub) (c # cs) = sub \<or> contains_text cs sub)"

text \<open>
  How an HTML parser reads a double-quoted attribute out of a markup: the value starts
  after the opening quotation mark and ends before the next quotation mark. \<open>after s
  marker\<close> is the text of \<open>s\<close> that follows the first occurrence of \<open>marker\<close>.
\<close>

fun after :: "jstring \<Rightarrow> jstring \<Rightarrow> jstring option" where
  "after [] marker = (if marker = [] then Some [] else None)"
| "after (c # cs) marker =
     (if take (length marker) (c # cs) = marker then Some (drop (length marker) (c # cs))
      else after cs marker)"

definition attribute_value :: "jstring \<Rightarrow> jstring \<Rightarrow> jstring option" where
  "attribute_value name markup =
     map_option (takeWhile (\<lambda>c. c \<noteq> 0x22)) (after markup (name @ js ''=\"''))"

text \<open>A search record with three string fields, and the markup of its row.\<close>

definition record_json :: "jstring \<Rightarrow> jstring \<Rightarrow> jstring \<Rightarrow> json" where
  "record_json patient_id full_name id_number =
     JObj [(js ''patient_id'', JStr patient_id), (js ''full_name'', JStr full_name),
           (js ''id_number'', JStr id_number)]"

definition row_markup :: "jstring \<Rightarrow> jstring \<Rightarrow> jstring \<Rightarrow> jstring" where
  "row_markup patient_id full_name id_number =
     js ''<div class=\"search-result-item\" data-id=\"'' @ patient_id
     @ js ''\" data-name=\"'' @ full_name @ js ''\">'' @ full_name
     @ js '' ('' @ id_number @ js '')</div>''"

text \<open>
  The realtime module with nothing initialised: every handle null, not ready, no sign-in
  awaited, no observer, no subscription.
\<close>

definition inert :: "module \<Rightarrow> bool" where
  "inert s = (app s = None \<and> db s = None \<and> auth s = None \<and> userId s = None
              \<and> isAuthReady s = False \<and> awaited s = None \<and> observing s = False
              \<and> subscriptions s = [])"

definition not_ready :: console_entry where
  "not_ready = (Fail, js ''Cannot fetch data: Firebase or Auth not ready.'', [])"

subsection \<open>An example page\<close>

text \<open>
  A page with a modal (0) that is open and holds a close button (1) and the patient form
  (2) with one filled control (3); the search input (4), the result panel (5), the
  patient identifier input (6, empty) and the name display (7); the consultation form (8)
  with the identifier input and a second control (9); a button that opens the modal (10).
\<close>

definition blank :: element where
  "blank = \<lparr>el_id = None, el_classes = [], el_modal_target = None, el_display = [],
            el_value = None, el_default = [], el_content = Html []\<rparr>"

definition example_elems :: "node \<Rightarrow> element" where
  "example_elems =
     (\<lambda>n. blank)
     (0 := blank\<lparr>el_id := Some (js ''patientModal''), el_classes := [js ''modal''],
                el_display := js ''block''\<rparr>,
      1 := blank\<lparr>el_classes := [js ''close-button'']\<rparr>,
      2 := blank\<lparr>el_id := Some (js ''patientForm'')\<rparr>,
      3 := blank\<lparr>el_value := Some (js ''Ann''), el_default := []\<rparr>,
      4 := blank\<lparr>el_id := Some (js ''patient_search_input''), el_value := Some (js '' a '')\<rparr>,
      5 := blank\<lparr>el_id := Some (js ''patient_search_results''),
                el_content := Html (js ''<div class=\"search-no-results\">No patients found.</div>'')\<rparr>,
      6 := blank\<lparr>el_id := Some (js ''patient_id_input''), el_value := Some []\<rparr>,
      7 := blank\<lparr>el_id := Some (js ''patient_name_display'')\<rparr>,
      8 := blank\<lparr>el_id := Some (js ''consultationForm'')\<rparr>,
      9 := blank\<lparr>el_value := Some (js ''cough''), el_default := []\<rparr>,
      10 := blank\<lparr>el_modal_target := Some (js ''patientModal'')\<rparr>)"

definition example_page :: page where
  "example_page =
     \<lparr>nodes = [0, 1, 2, 3, 4, 5, 6, 7, 8, 9, 10],
      elems = example_elems,
      closest_modal = (\<lambda>n. if n < 4 then Some 0 else None),
      first_form = (\<lambda>n. if n = 0 then Some 2 else None),
      controls = (\<lambda>n. if n = 2 then [3] else if n = 8 then [6, 9] else []),
      notifications = [], timers = [], requests = [], console = []\<rparr>"

definition example_search :: search_binding where
  "example_search = \<lparr>patientSearchInput = 4, searchResults = 5, patientIdInput = Some 6,
                      patientNameDisplay = Some 7\<rparr>"

definition example_patientForm :: form_binding where
  "example_patientForm =
     \<lparr>formId = js ''patientForm'', form = 2,
      successMessage = js ''Patient record added successfully!'',
      failureMessage = js ''Failed to add patient''\<rparr>"

definition example_consultationForm :: form_binding where
  "example_consultationForm =
     \<lparr>formId = js ''consultationForm'', form = 8,
      successMessage = js ''Consultation logged successfully!'',
      failureMessage = js ''Failed to log consultation''\<rparr>"

text \<open>An engine with the message texts of V8, which reads a string of digits as a number.\<close>

definition example_engine :: engine where
  "example_engine =
     \<lparr>null_property_message = (\<lambda>k. js ''Cannot read properties of null (reading '' @ k @ js '')''),
      null_object_message = js ''Cannot convert undefined or null to object'',
      not_primitive_message = js ''Cannot convert object to primitive value'',
      not_function_message = (\<lambda>f. f @ js '' is not a function''),
      string_positive = (\<lambda>s. s \<noteq> [] \<and> list_all (\<lambda>c. 0x30 \<le> c \<and> c \<le> 0x39) s
                               \<and> \<not> list_all (\<lambda>c. c = 0x30) s)\<rparr>"

definition example_success :: response where
  "example_success = \<lparr>status = 200, body = Json (JObj [(js ''status'', JStr (js ''success''))])\<rparr>"

definition example_duplicate :: response where
  "example_duplicate =
     \<lparr>status = 200,
      body = Json (JObj [(js ''status'', JStr (js ''duplicate'')),
                         (js ''message'', JStr (js ''ID exists''))])\<rparr>"

definition example_rejection :: response where
  "example_rejection = \<lparr>status = 200, body = Json (JObj [(js ''status'', JStr (js ''error''))])\<rparr>"

definition example_unavailable :: response where
  "example_unavailable = \<lparr>status = 500, body = Not_json (js ''Unexpected token <'')\<rparr>"

definition example_row :: click_target where
  "example_row = \<lparr>target_classes = [js ''search-result-item''], dataset_id = Some (js ''7''),
                   dataset_name = Some (js ''Ann Lee'')\<rparr>"

definition example_records :: json where
  "example_records = JArr [record_json (js ''7'') (js ''Ann \"AJ\" Lee'') (js ''P-1'')]"

definition example_globals :: globals where
  "example_globals = \<lparr>app_id_global = None, firebase_config_global = Some (Json (JObj [])),
                       initial_auth_token_global = None\<rparr>"

definition example_sdk :: sdk where
  "example_sdk = \<lparr>initializeApp_error = None, getFirestore_error = None, getAuth_error = None\<rparr>"

lemmas example_defs =
  example_page_def example_elems_def blank_def example_search_def example_patientForm_def
  example_consultationForm_def example_engine_def example_success_def example_duplicate_def
  example_rejection_def example_unavailable_def example_row_def

section \<open>Effects of the primitives\<close>

lemma showNotification_fields [simp]:
  "elems (showNotification m t p) = elems p"
  "requests (showNotification m t p) = requests p"
  "console (showNotification m t p) = console p"
  "closest_modal (showNotification m t p) = closest_modal p"
  "first_form (showNotification m t p) = first_form p"
  "controls (showNotification m t p) = controls p"
  "nodes (showNotification m t p) = nodes p"
  "notifications (showNotification m t p) =
     \<lparr>className = js ''notification notification-''
                    @ (case t of None \<Rightarrow> js ''success'' | Some c \<Rightarrow> c),
      textContent = m\<rparr> # notifications p"
  "timers (showNotification m t p) =
     timers p @ [(4000, Hide_notification (length (notifications p)))]"
  by (simp_all add: showNotification_def)

lemma console_error_fields [simp]:
  "elems (console_error l a p) = elems p"
  "requests (console_error l a p) = requests p"
  "console (console_error l a p) = console p @ [(Fail, l, a)]"
  "notifications (console_error l a p) = notifications p"
  "timers (console_error l a p) = timers p"
  by (simp_all add: console_error_def)

lemma fold_reset_control:
  "el_value (fold reset_control cs es c) =
     (if c \<in> set cs then Some (el_default (es c)) else el_value (es c))"
  "el_default (fold reset_control cs es c) = el_default (es c)"
  "el_display (fold reset_control cs es c) = el_display (es c)"
  by (induction cs arbitrary: es) (auto simp: reset_control_def)

lemma form_reset_fields [simp]:
  "requests (form_reset f p) = requests p"
  "console (form_reset f p) = console p"
  "notifications (form_reset f p) = notifications p"
  "timers (form_reset f p) = timers p"
  "closest_modal (form_reset f p) = closest_modal p"
  "controls (form_reset f p) = controls p"
  "elems (form_reset f p) = fold reset_control (controls p f) (elems p)"
  by (simp_all add: form_reset_def)

lemma set_display_fields [simp]:
  "requests (set_display n d p) = requests p"
  "console (set_display n d p) = console p"
  "notifications (set_display n d p) = notifications p"
  "timers (set_display n d p) = timers p"
  "first_form (set_display n d p) = first_form p"
  "controls (set_display n d p) = controls p"
  "elems (set_display n d p) = (elems p)(n := (elems p n)\<lparr>el_display := d\<rparr>)"
  by (simp_all add: set_display_def)

lemma post_form_fields [simp]:
  "elems (post_form f p) = elems p"
  "notifications (post_form f p) = notifications p"
  "timers (post_form f p) = timers p"
  "console (post_form f p) = console p"
  "requests (post_form f p) =
     requests p @ [Form_post (map (\<lambda>c. (c, el_value (elems p c))) (controls p f))]"
  by (simp_all add: post_form_def)

lemma getElementById_Some:
  "getElementById p k = Some n \<Longrightarrow> el_id (elems p n) = Some k"
  by (auto simp: getElementById_def find_Some_iff)

section \<open>The bound forms\<close>

lemma handleFormSubmission_fields:
  "handleFormSubmission i s f p = Some fb \<Longrightarrow>
     formId fb = i \<and> successMessage fb = s \<and> failureMessage fb = f"
  by (auto simp: handleFormSubmission_def split: option.splits)

lemma map_filter_mem:
  "y \<in> set (List.map_filter f xs) \<longleftrightarrow> (\<exists>x \<in> set xs. f x = Some y)"
  by (induction xs) (auto simp: List.map_filter_simps split: option.splits)

lemma bound_forms_cases:
  assumes "fb \<in> set (bound_forms p0)"
  shows "handleFormSubmission (js ''patientForm'')
           (js ''Patient record added successfully!'') (js ''Failed to add patient'') p0 = Some fb
       \<or> handleFormSubmission (js ''consultationForm'')
           (js ''Consultation logged successfully!'') (js ''Failed to log consultation'') p0 = Some fb
       \<or> handleFormSubmission (js ''medicineForm'')
           (js ''Medicine added to inventory successfully!'') (js ''Failed to add medicine'') p0 = Some fb
       \<or> handleFormSubmission (js ''appointmentForm'')
           (js ''Appointment scheduled successfully!'') (js ''Failed to schedule appointment'') p0 = Some fb"
  using assms unfolding bound_forms_def map_filter_mem by simp

lemma bound_forms_messages:
  assumes "fb \<in> set (bound_forms p0)"
  shows "(formId fb, successMessage fb, failureMessage fb) \<in> set
          [(js ''patientForm'', js ''Patient record added successfully!'',
            js ''Failed to add patient''),
           (js ''consultationForm'', js ''Consultation logged successfully!'',
            js ''Failed to log consultation''),
           (js ''medicineForm'', js ''Medicine added to inventory successfully!'',
            js ''Failed to add medicine''),
           (js ''appointmentForm'', js ''Appointment scheduled successfully!'',
            js ''Failed to schedule appointment'')]"
  using bound_forms_cases [OF assms] handleFormSubmission_fields [of _ _ _ p0 fb]
  by fastforce

lemma example_bound:
  "example_patientForm \<in> set (bound_forms example_page)"
  "example_consultationForm \<in> set (bound_forms example_page)"
  by (simp_all add: bound_forms_def handleFormSubmission_def getElementById_def
        List.map_filter_simps example_defs js_def)

section \<open>Form submission\<close>

text \<open>
  Claim C1. For every bound form, when the fetch of a submission resolves with a 2xx
  response whose JSON body has the status \<^verbatim>\<open>success\<close>, the handler shows the success
  notification configured for that form, resets the controls of the form, sets the
  display of the enclosing modal to \<^verbatim>\<open>none\<close> if there is one, and sets the timer
  that reloads the page after 500 ms. The reload is a timer that has not run: the three
  steps before it are done whatever the reload does.
\<close>

theorem submit_success:
  assumes "fb \<in> set (bound_forms p0)"
    and "ok r"
    and "body r = Json data"
    and "property data (js ''status'') = Some (JStr (js ''success''))"
  shows "notifications (form_submit_settled eng fb (Resolved r) p) =
           \<lparr>className = js ''notification notification-'' @ js ''success'',
            textContent = successMessage fb\<rparr> # notifications p
       \<and> (formId fb, successMessage fb) \<in> set
           [(js ''patientForm'', js ''Patient record added successfully!''),
            (js ''consultationForm'', js ''Consultation logged successfully!''),
            (js ''medicineForm'', js ''Medicine added to inventory successfully!''),
            (js ''appointmentForm'', js ''Appointment scheduled successfully!'')]
       \<and> map (\<lambda>c. el_value (elems (form_submit_settled eng fb (Resolved r) p) c))
             (controls p (form fb))
           = map (\<lambda>c. Some (el_default (elems p c))) (controls p (form fb))
       \<and> (case closest_modal p (form fb) of
             None \<Rightarrow> True
           | Some modal \<Rightarrow>
               el_display (elems (form_submit_settled eng fb (Resolved r) p) modal) = js ''none'')
       \<and> timers (form_submit_settled eng fb (Resolved r) p) =
           timers p @ [(4000, Hide_notification (length (notifications p))), (500, Reload)]"
proof -
  have nn: "data \<noteq> JNull" using assms(4) by auto
  have settled: "form_submit_settled eng fb (Resolved r) p =
      (let p1 = showNotification (successMessage fb) None p;
           p2 = form_reset (form fb) p1;
           p3 = (case closest_modal p2 (form fb) of
                   None \<Rightarrow> p2
                 | Some modal \<Rightarrow> set_display modal (js ''none'') p2)
       in p3\<lparr>timers := timers p3 @ [(500, Reload)]\<rparr>)"
    using assms nn
    by (simp add: form_submit_settled_def then_response_def then_data_def Let_def)
  have msgs: "(formId fb, successMessage fb) \<in> set
           [(js ''patientForm'', js ''Patient record added successfully!''),
            (js ''consultationForm'', js ''Consultation logged successfully!''),
            (js ''medicineForm'', js ''Medicine added to inventory successfully!''),
            (js ''appointmentForm'', js ''Appointment scheduled successfully!'')]"
    using bound_forms_messages [OF assms(1)] by auto
  show ?thesis
    unfolding settled Let_def using msgs
    by (cases "closest_modal p (form fb)") (simp_all add: fold_reset_control)
qed

text \<open>On the example page: the patient form, in its modal, after a success response.\<close>

theorem submit_success_witness:
  "notifications (form_submit_settled example_engine example_patientForm
      (Resolved example_success) example_page) =
     [\<lparr>className = js ''notification notification-'' @ js ''success'',
       textContent = js ''Patient record added successfully!''\<rparr>]
   \<and> el_value (elems (form_submit_settled example_engine example_patientForm
      (Resolved example_success) example_page) 3) = Some []
   \<and> el_display (elems (form_submit_settled example_engine example_patientForm
      (Resolved example_success) example_page) 0) = js ''none''
   \<and> timers (form_submit_settled example_engine example_patientForm
      (Resolved example_success) example_page) = [(4000, Hide_notification 0), (500, Reload)]"
  using submit_success [where fb = example_patientForm and ?p0.0 = example_page
      and r = example_success and data = "JObj [(js ''status'', JStr (js ''success''))]"
      and eng = example_engine and p = example_page, OF example_bound(1)]
  by (simp add: ok_def example_defs)

text \<open>
  Claim C2 as stated fails on its own example. For the response
  \<^verbatim>\<open>{status:"duplicate", message:"ID exists"}\<close> to the patient form the notification
  reads \<^verbatim>\<open>Failed to add patient: ID exists\<close>; the text \<^verbatim>\<open>duplicate... ID exists\<close>
  does not occur in it: the status of the response is not part of the text.
\<close>

theorem duplicate_notification_text:
  "textContent (hd (notifications (form_submit_settled example_engine example_patientForm
      (Resolved example_duplicate) example_page))) = js ''Failed to add patient: ID exists''
   \<and> \<not> contains_text (js ''Failed to add patient: ID exists'') (js ''duplicate... ID exists'')"
  by (simp add: form_submit_settled_def then_response_def then_data_def message_or_unknown_def
        ok_def example_defs js_def)

text \<open>
  Claim C2, amended. For every bound form, when the fetch of a submission resolves with a
  2xx response whose JSON body is not null, has a status other than \<^verbatim>\<open>success\<close> (or
  none) and a non-empty string as its message, the handler shows one error notification
  whose text is the failure prefix of the form, a colon and a space, and the message of
  the server; no element of the page changes (the form is not reset), no reload is
  scheduled and no request is sent. For \<^verbatim>\<open>{status:"duplicate", message:"ID exists"}\<close>
  the text is the prefix followed by \<^verbatim>\<open>: ID exists\<close>.
\<close>

theorem submit_application_failure:
  assumes "fb \<in> set (bound_forms p0)"
    and "ok r"
    and "body r = Json data"
    and "data \<noteq> JNull"
    and "property data (js ''status'') \<noteq> Some (JStr (js ''success''))"
    and "property data (js ''message'') = Some (JStr m)"
    and "m \<noteq> []"
  shows "notifications (form_submit_settled eng fb (Resolved r) p) =
           \<lparr>className = js ''notification notification-'' @ js ''error'',
            textContent = failureMessage fb @ js '': '' @ m\<rparr> # notifications p
       \<and> (formId fb, failureMessage fb) \<in> set
           [(js ''patientForm'', js ''Failed to add patient''),
            (js ''consultationForm'', js ''Failed to log consultation''),
            (js ''medicineForm'', js ''Failed to add medicine''),
            (js ''appointmentForm'', js ''Failed to schedule appointment'')]
       \<and> elems (form_submit_settled eng fb (Resolved r) p) = elems p
       \<and> timers (form_submit_settled eng fb (Resolved r) p) =
           timers p @ [(4000, Hide_notification (length (notifications p)))]
       \<and> requests (form_submit_settled eng fb (Resolved r) p) = requests p"
proof -
  have settled: "form_submit_settled eng fb (Resolved r) p =
      showNotification (failureMessage fb @ js '': '' @ m) (Some (js ''error'')) p"
    using assms(2-7)
    by (simp add: form_submit_settled_def then_response_def then_data_def
          message_or_unknown_def)
  have "(formId fb, failureMessage fb) \<in> set
           [(js ''patientForm'', js ''Failed to add patient''),
            (js ''consultationForm'', js ''Failed to log consultation''),
            (js ''medicineForm'', js ''Failed to add medicine''),
            (js ''appointmentForm'', js ''Failed to schedule appointment'')]"
    using bound_forms_messages [OF assms(1)] by auto
  then show ?thesis
    unfolding settled by simp
qed

theorem submit_application_failure_witness:
  "notifications (form_submit_settled example_engine example_patientForm
      (Resolved example_duplicate) example_page) =
     [\<lparr>className = js ''notification notification-'' @ js ''error'',
       textContent = js ''Failed to add patient'' @ js '': '' @ js ''ID exists''\<rparr>]
   \<and> el_value (elems (form_submit_settled example_engine example_patientForm
      (Resolved example_duplicate) example_page) 3) = Some (js ''Ann'')
   \<and> timers (form_submit_settled example_engine example_patientForm
      (Resolved example_duplicate) example_page) = [(4000, Hide_notification 0)]
   \<and> requests (form_submit_settled example_engine example_patientForm
      (Resolved example_duplicate) example_page) = []"
  using submit_application_failure [where fb = example_patientForm and ?p0.0 = example_page
      and r = example_duplicate and m = "js ''ID exists''"
      and data = "JObj [(js ''status'', JStr (js ''duplicate'')),
                        (js ''message'', JStr (js ''ID exists''))]"
      and eng = example_engine and p = example_page, OF example_bound(1)]
  by (simp add: ok_def example_defs js_def)

text \<open>
  Claim C10. When a 2xx response has a JSON body with a status other than
  \<^verbatim>\<open>success\<close> and its message is missing, null or the empty string, the text of the
  error notification is the failure prefix, a colon and a space, and the fallback
  \<^verbatim>\<open>Unknown error.\<close>; the form is not reset.
\<close>

theorem unknown_error_fallback:
  assumes "ok r"
    and "body r = Json data"
    and "data \<noteq> JNull"
    and "property data (js ''status'') \<noteq> Some (JStr (js ''success''))"
    and "property data (js ''message'') = None
       \<or> property data (js ''message'') = Some JNull
       \<or> property data (js ''message'') = Some (JStr [])"
  shows "notifications (form_submit_settled eng fb (Resolved r) p) =
           \<lparr>className = js ''notification notification-'' @ js ''error'',
            textContent = failureMessage fb @ js '': '' @ js ''Unknown error.''\<rparr>
           # notifications p
       \<and> elems (form_submit_settled eng fb (Resolved r) p) = elems p
       \<and> timers (form_submit_settled eng fb (Resolved r) p) =
           timers p @ [(4000, Hide_notification (length (notifications p)))]"
proof -
  have "message_or_unknown data = Some (js ''Unknown error.'')"
    using assms(5) by (auto simp: message_or_unknown_def)
  then have "form_submit_settled eng fb (Resolved r) p =
      showNotification (failureMessage fb @ js '': '' @ js ''Unknown error.'')
        (Some (js ''error'')) p"
    using assms(1-4)
    by (simp add: form_submit_settled_def then_response_def then_data_def)
  then show ?thesis by simp
qed

theorem unknown_error_fallback_witness:
  "notifications (form_submit_settled example_engine example_patientForm
      (Resolved example_rejection) example_page) =
     [\<lparr>className = js ''notification notification-'' @ js ''error'',
       textContent = js ''Failed to add patient'' @ js '': '' @ js ''Unknown error.''\<rparr>]
   \<and> el_value (elems (form_submit_settled example_engine example_patientForm
      (Resolved example_rejection) example_page) 3) = Some (js ''Ann'')
   \<and> timers (form_submit_settled example_engine example_patientForm
      (Resolved example_rejection) example_page) = [(4000, Hide_notification 0)]"
  using unknown_error_fallback [where fb = example_patientForm
      and r = example_rejection
      and data = "JObj [(js ''status'', JStr (js ''error''))]"
      and eng = example_engine and p = example_page]
  by (simp add: ok_def example_defs js_def)

text \<open>
  Claim C3. Submitting the consultation form or the appointment form while the element
  \<^verbatim>\<open>patient_id_input\<close> is absent, or has no value or the empty value, shows the error
  notification \<^verbatim>\<open>Please select a patient first.\<close> and sends no request. The check
  is made for these two forms only: the patient form and the medicine form are posted
  whatever the identifier input holds.
\<close>

theorem patient_precondition:
  "((formId fb = js ''consultationForm'' \<or> formId fb = js ''appointmentForm'')
      \<and> (getElementById p (js ''patient_id_input'') = None
          \<or> (getElementById p (js ''patient_id_input'') = Some i
              \<and> (el_value (elems p i) = None \<or> el_value (elems p i) = Some [])))
     \<longrightarrow> notifications (form_submit fb p) =
           \<lparr>className = js ''notification notification-'' @ js ''error'',
            textContent = js ''Please select a patient first.''\<rparr> # notifications p
         \<and> requests (form_submit fb p) = requests p)
   \<and> (formId fb = js ''patientForm'' \<or> formId fb = js ''medicineForm''
     \<longrightarrow> notifications (form_submit fb p) = notifications p
         \<and> requests (form_submit fb p) =
             requests p @ [Form_post (map (\<lambda>c. (c, el_value (elems p c)))
                                        (controls p (form fb)))])"
  by (auto simp: form_submit_def js_def split: option.splits)

text \<open>On the example page the identifier input is empty: the consultation form is held
  back, the patient form is posted.\<close>

theorem patient_precondition_witness:
  "notifications (form_submit example_consultationForm example_page) =
     [\<lparr>className = js ''notification notification-'' @ js ''error'',
       textContent = js ''Please select a patient first.''\<rparr>]
   \<and> requests (form_submit example_consultationForm example_page) = []
   \<and> notifications (form_submit example_patientForm example_page) = []
   \<and> requests (form_submit example_patientForm example_page) = [Form_post [(3, Some (js ''Ann''))]]"
  using patient_precondition [where fb = example_consultationForm and p = example_page and i = 6]
        patient_precondition [where fb = example_patientForm and p = example_page and i = 6]
  by (simp add: getElementById_def example_defs js_def)

text \<open>
  Claim C8 as stated fails for the patient search: a rejected search request is logged
  and nothing else, no notification is shown.
\<close>

theorem search_failure_is_only_logged:
  "notifications (patientSearch_settled example_engine example_search
      (Rejected (js ''Failed to fetch'')) example_page) = []
   \<and> console (patientSearch_settled example_engine example_search
      (Rejected (js ''Failed to fetch'')) example_page) =
       [(Fail, js ''Error searching patients:'', [Err (TypeError (js ''Failed to fetch''))])]"
  by (simp add: patientSearch_settled_def example_defs)

text \<open>
  Claim C8, amended. A transport failure of the form submission, a rejected fetch or a
  response that is not 2xx, is caught, logged with \<^verbatim>\<open>console.error\<close> and shown as the
  error notification \<^verbatim>\<open>An unexpected error occurred: \<close> followed by the message of the
  error; no request is sent again and no element changes. A rejected fetch of the
  patient search is caught and logged with \<^verbatim>\<open>console.error\<close>; no notification is
  shown, no request is sent again and no element changes.
\<close>

theorem transport_failure:
  "((fr = Rejected m \<and> error = TypeError m)
      \<or> (fr = Resolved r \<and> \<not> ok r
          \<and> error = Error (js ''HTTP error! Status: '' @ decimal (status r)))
     \<longrightarrow> console (form_submit_settled eng fb fr p) =
           console p @ [(Fail, js ''Submission Error:'', [Err error])]
         \<and> notifications (form_submit_settled eng fb fr p) =
           \<lparr>className = js ''notification notification-'' @ js ''error'',
            textContent = js ''An unexpected error occurred: '' @ message error\<rparr>
           # notifications p
         \<and> requests (form_submit_settled eng fb fr p) = requests p
         \<and> elems (form_submit_settled eng fb fr p) = elems p)
   \<and> console (patientSearch_settled eng sb (Rejected m) p) =
       console p @ [(Fail, js ''Error searching patients:'', [Err (TypeError m)])]
   \<and> notifications (patientSearch_settled eng sb (Rejected m) p) = notifications p
   \<and> requests (patientSearch_settled eng sb (Rejected m) p) = requests p
   \<and> elems (patientSearch_settled eng sb (Rejected m) p) = elems p"
  by (auto simp: form_submit_settled_def then_response_def catch_error_def
        patientSearch_settled_def)

theorem transport_failure_witness:
  "console (form_submit_settled example_engine example_patientForm
      (Resolved example_unavailable) example_page) =
     [(Fail, js ''Submission Error:'', [Err (Error (js ''HTTP error! Status: 500''))])]
   \<and> notifications (form_submit_settled example_engine example_patientForm
      (Resolved example_unavailable) example_page) =
     [\<lparr>className = js ''notification notification-'' @ js ''error'',
       textContent = js ''An unexpected error occurred: '' @ js ''HTTP error! Status: 500''\<rparr>]
   \<and> requests (form_submit_settled example_engine example_patientForm
      (Resolved example_unavailable) example_page) = []
   \<and> el_value (elems (form_submit_settled example_engine example_patientForm
      (Resolved example_unavailable) example_page) 3) = Some (js ''Ann'')
   \<and> console (form_submit_settled example_engine example_patientForm
      (Rejected (js ''Failed to fetch'')) example_page) =
     [(Fail, js ''Submission Error:'', [Err (TypeError (js ''Failed to fetch''))])]
   \<and> notifications (form_submit_settled example_engine example_patientForm
      (Rejected (js ''Failed to fetch'')) example_page) =
     [\<lparr>className = js ''notification notification-'' @ js ''error'',
       textContent = js ''An unexpected error occurred: '' @ js ''Failed to fetch''\<rparr>]"
  using transport_failure [where fr = "Resolved example_unavailable" and r = example_unavailable
      and error = "Error (js ''HTTP error! Status: 500'')" and eng = example_engine
      and fb = example_patientForm and p = example_page and m = "js ''Failed to fetch''"]
    transport_failure [where fr = "Rejected (js ''Failed to fetch'')"
      and error = "TypeError (js ''Failed to fetch'')" and eng = example_engine
      and fb = example_patientForm and p = example_page and m = "js ''Failed to fetch''"]
  by (simp add: ok_def example_defs decimal.simps js_def)

section \<open>Patient search\<close>

text \<open>
  Claim C4. For every keyup on the search input whose value, trimmed, is shorter than 2,
  the result panel is emptied and no request is sent.
\<close>

theorem keyup_short_term:
  assumes "el_value (elems p (patientSearchInput sb)) = Some v"
    and "length (trim v) < 2"
  shows "el_content (elems (patientSearch_keyup sb p) (searchResults sb)) = Html []
       \<and> requests (patientSearch_keyup sb p) = requests p"
  using assms by (simp add: patientSearch_keyup_def set_content_def)

theorem keyup_short_term_witness:
  "el_content (elems (patientSearch_keyup example_search example_page) 5) = Html []
   \<and> requests (patientSearch_keyup example_search example_page) = []"
  using keyup_short_term [where p = example_page and sb = example_search and v = "js '' a ''"]
  by (simp add: example_defs js_def trim_def white_space_def)

text \<open>
  The markup of a search result: the placeholder for null and for the empty array, and
  otherwise one row per record, the three strings of the record written into the
  template as they are.
\<close>

lemma row_record: "row eng (record_json a b c) = Inr (row_markup a b c)"
  by (simp add: row_def field_def record_json_def row_markup_def js_def)

lemma rows_records:
  "rows eng (map (\<lambda>(a, b, c). record_json a b c) rs) html =
     Inr (html @ concat (map (\<lambda>(a, b, c). row_markup a b c) rs))"
  by (induction rs arbitrary: html) (auto simp: row_record)

lemma results_html_records:
  "results_html eng (JArr (map (\<lambda>(a, b, c). record_json a b c) rs)) =
     Inr (if rs = [] then js ''<div class=\"search-no-results\">No patients found.</div>''
          else concat (map (\<lambda>(a, b, c). row_markup a b c) rs))"
  using rows_records [of eng rs "[]"] by (simp add: results_html_def)

lemma results_html_null:
  "results_html eng JNull = Inr (js ''<div class=\"search-no-results\">No patients found.</div>'')"
  by (simp add: results_html_def)

text \<open>
  Claim C5 does not hold for a record whose name has a quotation mark. The name
  \<^verbatim>\<open>Ann "AJ" Lee\<close> is written into the markup unescaped, and the
  \<^verbatim>\<open>data-name\<close> attribute of the row ends at the first quotation mark of the name:
  its value is \<^verbatim>\<open>Ann \<close>, not the name.
\<close>

theorem quoted_name_is_cut:
  "results_html example_engine example_records =
     Inr (js ''<div class=\"search-result-item\" data-id=\"7\" data-name=\"Ann \"AJ\" Lee\">Ann \"AJ\" Lee (P-1)</div>'')
   \<and> attribute_value (js ''data-name'')
       (js ''<div class=\"search-result-item\" data-id=\"7\" data-name=\"Ann \"AJ\" Lee\">Ann \"AJ\" Lee (P-1)</div>'')
     = Some (js ''Ann '')"
  by (simp add: results_html_def row_def field_def attribute_value_def example_records_def
        record_json_def example_engine_def js_def)

text \<open>The elements the search listeners are bound to are those the four ids name.\<close>

lemma patient_search_Some:
  assumes "patient_search p = Some sb"
  shows "getElementById p (js ''patient_search_input'') = Some (patientSearchInput sb)"
    and "getElementById p (js ''patient_search_results'') = Some (searchResults sb)"
    and "patientIdInput sb = getElementById p (js ''patient_id_input'')"
    and "patientNameDisplay sb = getElementById p (js ''patient_name_display'')"
  using assms by (auto simp: patient_search_def split: option.splits)

text \<open>
  Claim C6. With the identifier input and the name display in the page, a click on a
  result row empties the search input and the result panel, sets the identifier input to
  the \<^verbatim>\<open>data-id\<close> of that row, and the name display to \<^verbatim>\<open>Selected: \<close> followed by
  the \<^verbatim>\<open>data-name\<close> of that row, and to nothing of any other row; it sends no request.
  The bindings are those of the page, so the four elements, found by four different ids,
  are four different elements.
\<close>

theorem select_result_row:
  assumes "patient_search p = Some sb"
    and "patientIdInput sb = Some i"
    and "patientNameDisplay sb = Some d"
    and "js ''search-result-item'' \<in> set (target_classes t)"
    and "dataset_id t = Some a"
    and "dataset_name t = Some b"
  shows "el_value (elems (searchResults_click sb t p) (patientSearchInput sb)) = Some []
       \<and> el_content (elems (searchResults_click sb t p) (searchResults sb)) = Html []
       \<and> el_value (elems (searchResults_click sb t p) i) = Some a
       \<and> el_content (elems (searchResults_click sb t p) d) = Text (js ''Selected: '' @ b)
       \<and> requests (searchResults_click sb t p) = requests p"
proof -
  have ids: "el_id (elems p (patientSearchInput sb)) = Some (js ''patient_search_input'')"
    "el_id (elems p (searchResults sb)) = Some (js ''patient_search_results'')"
    "el_id (elems p i) = Some (js ''patient_id_input'')"
    "el_id (elems p d) = Some (js ''patient_name_display'')"
    using patient_search_Some [OF assms(1)] assms(2,3)
    by (simp_all add: getElementById_Some)
  have "el_id (elems p i) \<noteq> el_id (elems p (patientSearchInput sb))"
    unfolding ids by (simp add: js_def)
  then have i: "i \<noteq> patientSearchInput sb" by auto
  have "el_id (elems p d) \<noteq> el_id (elems p (searchResults sb))"
    unfolding ids by (simp add: js_def)
  then have d: "d \<noteq> searchResults sb" by auto
  show ?thesis
    using assms(2-6) i d
    by (simp add: searchResults_click_def set_value_def set_content_def or_undefined_def)
qed

theorem select_result_row_witness:
  "el_value (elems (searchResults_click example_search example_row example_page) 4) = Some []
   \<and> el_content (elems (searchResults_click example_search example_row example_page) 5) = Html []
   \<and> el_value (elems (searchResults_click example_search example_row example_page) 6)
       = Some (js ''7'')
   \<and> el_content (elems (searchResults_click example_search example_row example_page) 7)
       = Text (js ''Selected: '' @ js ''Ann Lee'')
   \<and> requests (searchResults_click example_search example_row example_page) = []"
  using select_result_row [where p = example_page and sb = example_search and t = example_row
      and i = 6 and d = 7 and a = "js ''7''" and b = "js ''Ann Lee''"]
  by (simp add: patient_search_def getElementById_def example_defs js_def)

text \<open>Without one of the two elements the click is logged and changes nothing else.\<close>

lemma missing_selection_fields:
  assumes "js ''search-result-item'' \<in> set (target_classes t)"
    and "patientIdInput sb = None \<or> patientNameDisplay sb = None"
  shows "searchResults_click sb t p =
           console_error
             (js ''Missing required elements for patient selection (patient_id_input or patient_name_display)'')
             [] p"
  using assms by (auto simp: searchResults_click_def split: option.splits)

section \<open>Modals\<close>

text \<open>The click listener of the window changes the value of no element.\<close>

lemma window_click_values:
  "el_value (elems (window_click target p) n) = el_value (elems p n)"
  by (simp add: window_click_def)

text \<open>
  Claim C7 does not hold for a click on the backdrop. On the example page the modal is
  open and the control of its form holds \<^verbatim>\<open>Ann\<close>, with the empty default. A click
  on the modal itself closes it and leaves \<^verbatim>\<open>Ann\<close> in the control; a click on the
  close button closes it and resets the control.
\<close>

theorem backdrop_click_keeps_values:
  "el_display (elems (window_click 0 example_page) 0) = js ''none''
   \<and> el_value (elems (window_click 0 example_page) 3) = Some (js ''Ann'')
   \<and> el_default (elems (window_click 0 example_page) 3) = []
   \<and> el_display (elems (closeModal_click 1 example_page) 0) = js ''none''
   \<and> el_value (elems (closeModal_click 1 example_page) 3) = Some []"
  by (simp add: window_click_def closeModal_click_def set_display_def form_reset_def
        reset_control_def example_defs js_def)

section \<open>The realtime service module\<close>

lemma step_inert:
  assumes "inert s"
  shows "inert (step e s)"
    and "module_console (step e s) =
           module_console s @ (if e = Call_fetchRealtimeData then [not_ready] else [])"
  using assms
  by (cases e; simp add: inert_def fetchRealtimeData_def sign_in_settled_def
        auth_state_changed_def say_def not_ready_def)+

lemma run_inert:
  assumes "inert s"
  shows "inert (run evs s)
       \<and> module_console (run evs s) =
           module_console s @ replicate (count_list evs Call_fetchRealtimeData) not_ready"
  using assms
proof (induction evs arbitrary: s)
  case Nil
  then show ?case by simp
next
  case (Cons e evs)
  from Cons.IH [OF step_inert(1) [OF Cons.prems, of e]] step_inert(2) [OF Cons.prems, of e]
  show ?case by (simp add: replicate_app_Cons_same)
qed

lemma load_empty:
  assumes "firebase_config_global g = None
         \<or> (firebase_config_global g = Some (Json j) \<and> object_keys_length j = Some 0)"
  shows "\<exists>s. load eng k g = Some s \<and> inert s
           \<and> module_console s = [(Fail, js ''Firebase configuration is missing or empty.'', [])]"
  using assms
  by (auto simp: load_def initializeFirebase_def say_def inert_def)

text \<open>
  Claim C9. If the injected configuration is not defined, or parses to a value without
  keys, loading the module logs \<^verbatim>\<open>Firebase configuration is missing or empty.\<close> and
  leaves \<^verbatim>\<open>app\<close>, \<^verbatim>\<open>db\<close>, \<^verbatim>\<open>auth\<close> and \<^verbatim>\<open>userId\<close> null and the readiness flag
  false; whatever happens afterwards, they stay so, no subscription is opened, and every
  call of \<^verbatim>\<open>fetchRealtimeData\<close> logs \<^verbatim>\<open>Cannot fetch data: Firebase or Auth not
  ready.\<close> and does nothing else.
\<close>

theorem empty_configuration_is_inert:
  assumes "firebase_config_global g = None
         \<or> (firebase_config_global g = Some (Json j) \<and> object_keys_length j = Some 0)"
  shows "case load eng k g of
           None \<Rightarrow> False
         | Some s \<Rightarrow>
             module_console s = [(Fail, js ''Firebase configuration is missing or empty.'', [])]
           \<and> app (run evs s) = None \<and> db (run evs s) = None \<and> auth (run evs s) = None
           \<and> userId (run evs s) = None \<and> isAuthReady (run evs s) = False
           \<and> subscriptions (run evs s) = []
           \<and> module_console (run evs s) =
               module_console s
               @ replicate (count_list evs Call_fetchRealtimeData)
                   (Fail, js ''Cannot fetch data: Firebase or Auth not ready.'', [])"
proof -
  from load_empty [OF assms] obtain s where s: "load eng k g = Some s" "inert s"
    "module_console s = [(Fail, js ''Firebase configuration is missing or empty.'', [])]"
    by blast
  from run_inert [OF s(2), of evs] show ?thesis
    using s(1,3) by (simp add: inert_def not_ready_def)
qed

text \<open>With the configuration \<^verbatim>\<open>{}\<close>: two calls, and an auth state in between.\<close>

theorem empty_configuration_is_inert_witness:
  "(case load example_engine example_sdk example_globals of
      None \<Rightarrow> False
    | Some s \<Rightarrow>
        module_console s = [(Fail, js ''Firebase configuration is missing or empty.'', [])]
      \<and> db (run [Call_fetchRealtimeData, Auth_state_changed (Some (js ''u1'')) (js ''r1''),
                  Call_fetchRealtimeData] s) = None
      \<and> isAuthReady (run [Call_fetchRealtimeData, Auth_state_changed (Some (js ''u1'')) (js ''r1''),
                  Call_fetchRealtimeData] s) = False
      \<and> subscriptions (run [Call_fetchRealtimeData, Auth_state_changed (Some (js ''u1'')) (js ''r1''),
                  Call_fetchRealtimeData] s) = []
      \<and> module_console (run [Call_fetchRealtimeData, Auth_state_changed (Some (js ''u1'')) (js ''r1''),
                  Call_fetchRealtimeData] s) =
          [(Fail, js ''Firebase configuration is missing or empty.'', []),
           (Fail, js ''Cannot fetch data: Firebase or Auth not ready.'', []),
           (Fail, js ''Cannot fetch data: Firebase or Auth not ready.'', [])])"
  using empty_configuration_is_inert [where g = example_globals and j = "JObj []"
      and eng = example_engine and k = example_sdk
      and evs = "[Call_fetchRealtimeData, Auth_state_changed (Some (js ''u1'')) (js ''r1''),
                  Call_fetchRealtimeData]"]
  by (simp add: example_globals_def split: option.splits)

text \<open>
  A configured module, for comparison: once the sign-in is settled and a user is
  reported, the same call opens the subscription.
\<close>

lemma configured_module_subscribes:
  "(case load example_engine example_sdk
           (example_globals\<lparr>firebase_config_global :=
              Some (Json (JObj [(js ''projectId'', JStr (js ''clinic''))]))\<rparr>) of
      None \<Rightarrow> []
    | Some s \<Rightarrow>
        subscriptions (run [Sign_in_settled None, Auth_state_changed (Some (js ''u1'')) (js ''r1''),
                            Call_fetchRealtimeData] s))
   = [js ''/artifacts/'' @ js ''default-app-id'' @ js ''/users/'' @ js ''u1'' @ js ''/your_items'']"
  by (simp add: load_def initializeFirebase_def say_def example_globals_def example_sdk_def
        sign_in_settled_def auth_state_changed_def fetchRealtimeData_def Let_def js_def)

end
